theory Spec2Isabelle
  imports Main
begin

section \<open>The chat channel of \<^verbatim>\<open>objects/channel.py\<close>\<close>

subsection \<open>Data model\<close>

text \<open>
  A \<^verbatim>\<open>Player\<close> is an object of another module. The channel stores references to
  players and compares them as Python compares objects of a class without \<^verbatim>\<open>__eq__\<close>:
  by identity. A reference is an address; the attributes the channel reads
  (\<^verbatim>\<open>p.id\<close>, \<^verbatim>\<open>p.name\<close>) are looked up in a store.
\<close>

type_synonym player_ref = nat

record Player =
  player_id :: int
  player_name :: string

type_synonym store = "player_ref \<Rightarrow> Player"

text \<open>\<^verbatim>\<open>Privileges\<close> is an integer flag enumeration of another module.\<close>

type_synonym Privileges = int

text \<open>
  The slots of \<^verbatim>\<open>Channel\<close>. The slot \<^verbatim>\<open>_name\<close> is \<open>real_name\<close> here (the source calls
  it the channel's 'real' name), the slot \<^verbatim>\<open>write\<close> is \<open>write_priv\<close> and the slot \<^verbatim>\<open>instance\<close> is
  \<open>instance_flag\<close> (these words are reserved).
\<close>

record Channel =
  real_name :: string
  topic :: string
  read :: Privileges
  write_priv :: Privileges
  auto_join :: bool
  instance_flag :: bool
  players :: "player_ref list"

text \<open>
  \<^verbatim>\<open>packets.sendMessage(client, msg, target, client_id)\<close> builds the bytes of a chat
  packet in another module; the channel passes the result on unread. The packet is kept
  as the call that built it.
\<close>

datatype packet = sendMessage string string string int

text \<open>
  The calls a method makes on its collaborators, in the order it makes them:
  \<^verbatim>\<open>p.enqueue(data)\<close> on a player and \<^verbatim>\<open>glob.channels.remove(self)\<close> on the global
  channel list.
\<close>

datatype event =
  player_enqueue player_ref packet
| glob_channels_remove Channel

datatype error = ValueError

subsection \<open>Construction and queries\<close>

text \<open>\<^verbatim>\<open>__init__\<close>: the arguments are stored and the player list starts empty.\<close>

definition init :: "string \<Rightarrow> string \<Rightarrow> Privileges \<Rightarrow> Privileges \<Rightarrow> bool \<Rightarrow> bool \<Rightarrow> Channel" where
  "init nm tp rd wr aj inst =
     \<lparr>real_name = nm, topic = tp, read = rd, write_priv = wr,
      auto_join = aj, instance_flag = inst, players = []\<rparr>"

text \<open>\<^verbatim>\<open>str.startswith\<close> with a single prefix and no offsets.\<close>

fun startswith :: "string \<Rightarrow> string \<Rightarrow> bool" where
  "startswith s [] = True"
| "startswith [] (c # cs) = False"
| "startswith (d # ds) (c # cs) = (d = c \<and> startswith ds cs)"

text \<open>The property \<^verbatim>\<open>name\<close>.\<close>

definition name :: "Channel \<Rightarrow> string" where
  "name self =
     (if startswith (real_name self) ''#spec_'' then ''#spectator''
      else if startswith (real_name self) ''#multi_'' then ''#multiplayer''
      else real_name self)"

text \<open>The property \<^verbatim>\<open>basic_info\<close>.\<close>

definition basic_info :: "Channel \<Rightarrow> string \<times> string \<times> int" where
  "basic_info self = (name self, topic self, int (length (players self)))"

text \<open>\<^verbatim>\<open>__contains__\<close>.\<close>

definition contains :: "Channel \<Rightarrow> player_ref \<Rightarrow> bool" where
  "contains self p = (p \<in> set (players self))"

subsection \<open>Fan-out\<close>

text \<open>
  \<^verbatim>\<open>enqueue\<close>: the loop over \<^verbatim>\<open>self.players\<close>, skipping (\<^verbatim>\<open>continue\<close>) every player whose
  id is in \<^verbatim>\<open>immune\<close>.
\<close>

fun enqueue_loop :: "store \<Rightarrow> player_ref list \<Rightarrow> packet \<Rightarrow> int list \<Rightarrow> event list" where
  "enqueue_loop h [] data immune = []"
| "enqueue_loop h (p # ps) data immune =
     (if player_id (h p) \<in> set immune then enqueue_loop h ps data immune
      else player_enqueue p data # enqueue_loop h ps data immune)"

definition enqueue :: "store \<Rightarrow> Channel \<Rightarrow> packet \<Rightarrow> int list \<Rightarrow> Channel \<times> event list" where
  "enqueue h self data immune = (self, enqueue_loop h (players self) data immune)"

text \<open>\<^verbatim>\<open>send\<close>: one packet, handed to \<^verbatim>\<open>enqueue\<close> with the sender immune unless \<^verbatim>\<open>to_self\<close>.\<close>

definition send :: "store \<Rightarrow> Channel \<Rightarrow> player_ref \<Rightarrow> string \<Rightarrow> bool \<Rightarrow> Channel \<times> event list" where
  "send h self client msg to_self =
     enqueue h self
       (sendMessage (player_name (h client)) msg (name self) (player_id (h client)))
       (if to_self then [] else [player_id (h client)])"

text \<open>\<^verbatim>\<open>send_selective\<close>: the loop over \<^verbatim>\<open>targets\<close>; the packet is built anew for each.\<close>

fun send_selective_loop :: "store \<Rightarrow> Channel \<Rightarrow> player_ref \<Rightarrow> string \<Rightarrow> player_ref list \<Rightarrow> event list" where
  "send_selective_loop h self client msg [] = []"
| "send_selective_loop h self client msg (p # ps) =
     player_enqueue p
       (sendMessage (player_name (h client)) msg (name self) (player_id (h client)))
     # send_selective_loop h self client msg ps"

definition send_selective ::
  "store \<Rightarrow> Channel \<Rightarrow> player_ref \<Rightarrow> string \<Rightarrow> player_ref list \<Rightarrow> Channel \<times> event list" where
  "send_selective h self client msg targets =
     (self, send_selective_loop h self client msg targets)"

subsection \<open>Membership\<close>

text \<open>\<^verbatim>\<open>list.remove(x)\<close>: drops the first element equal to \<^verbatim>\<open>x\<close>, raises ValueError if there is none.\<close>

fun list_remove :: "'a list \<Rightarrow> 'a \<Rightarrow> error + 'a list" where
  "list_remove [] x = Inl ValueError"
| "list_remove (y # ys) x =
     (if y = x then Inr ys
      else (case list_remove ys x of Inl e \<Rightarrow> Inl e | Inr zs \<Rightarrow> Inr (y # zs)))"

text \<open>\<^verbatim>\<open>append\<close> (named \<open>append_ch\<close>: \<open>append\<close> is the list operation of HOL).\<close>

definition append_ch :: "Channel \<Rightarrow> player_ref \<Rightarrow> Channel" where
  "append_ch self p = self\<lparr>players := players self @ [p]\<rparr>"

text \<open>
  \<^verbatim>\<open>remove\<close> (named \<open>remove_ch\<close>). The result is the error raised, or the channel after
  the call with the calls made on collaborators.
\<close>

definition remove_ch :: "Channel \<Rightarrow> player_ref \<Rightarrow> error + Channel \<times> event list" where
  "remove_ch self p =
     (if length (players self) = 1 \<and> instance_flag self
      then Inr (self, [glob_channels_remove self])
      else (case list_remove (players self) p of
              Inl e \<Rightarrow> Inl e
            | Inr ps \<Rightarrow> Inr (self\<lparr>players := ps\<rparr>, [])))"

subsection \<open>Sequences of join and leave calls\<close>

datatype call = Join player_ref | Leave player_ref

fun apply_call :: "Channel \<Rightarrow> call \<Rightarrow> error + Channel \<times> event list" where
  "apply_call c (Join p) = Inr (append_ch c p, [])"
| "apply_call c (Leave p) = remove_ch c p"

text \<open>The calls are made one after the other; the first error raised ends the replay.\<close>

fun replay :: "Channel \<Rightarrow> call list \<Rightarrow> error + Channel \<times> event list" where
  "replay c [] = Inr (c, [])"
| "replay c (x # xs) =
     (case apply_call c x of
        Inl e \<Rightarrow> Inl e
      | Inr (c', evs) \<Rightarrow>
          (case replay c' xs of
             Inl e \<Rightarrow> Inl e
           | Inr (c'', evs') \<Rightarrow> Inr (c'', evs @ evs')))"

text \<open>The sessions joined and the sessions left by a sequence of calls, in call order.\<close>

fun joins :: "call list \<Rightarrow> player_ref list" where
  "joins [] = []"
| "joins (Join p # xs) = p # joins xs"
| "joins (Leave p # xs) = joins xs"

fun leaves :: "call list \<Rightarrow> player_ref list" where
  "leaves [] = []"
| "leaves (Join p # xs) = leaves xs"
| "leaves (Leave p # xs) = p # leaves xs"

text \<open>
  Every \<open>Leave\<close> of the sequence names a player that is in the channel when the call is
  made. The sequence is followed as \<open>replay\<close> runs it, up to the first error.
\<close>

fun leaves_present :: "Channel \<Rightarrow> call list \<Rightarrow> bool" where
  "leaves_present c [] = True"
| "leaves_present c (Join p # xs) = leaves_present (append_ch c p) xs"
| "leaves_present c (Leave p # xs) =
     (contains c p \<and>
      (case remove_ch c p of Inl e \<Rightarrow> True | Inr (c', evs) \<Rightarrow> leaves_present c' xs))"

text \<open>
  No \<open>Leave\<close> of the sequence is made when the test of \<^verbatim>\<open>remove\<close> for the deletion of
  an instance channel holds.
\<close>

fun no_deletion :: "Channel \<Rightarrow> call list \<Rightarrow> bool" where
  "no_deletion c [] = True"
| "no_deletion c (Join p # xs) = no_deletion (append_ch c p) xs"
| "no_deletion c (Leave p # xs) =
     (\<not> (length (players c) = 1 \<and> instance_flag c) \<and>
      (case remove_ch c p of Inl e \<Rightarrow> True | Inr (c', evs) \<Rightarrow> no_deletion c' xs))"

subsection \<open>Sample states\<close>

text \<open>A store of players with distinct ids.\<close>

definition sessions :: store where
  "sessions r = \<lparr>player_id = 1000 + int r, player_name = ''player''\<rparr>"

text \<open>A store in which the players 1 and 2 carry the same id.\<close>

definition sessions_shared :: store where
  "sessions_shared r = \<lparr>player_id = (if r = 2 then 1001 else 1000 + int r), player_name = ''player''\<rparr>"

text \<open>An instance channel that one player has joined.\<close>

definition lobby :: Channel where
  "lobby = append_ch (init ''#multi_7'' ''lobby chat'' 1 1 False True) 5"

definition booth :: Channel where
  "booth = append_ch (init ''#spec_3'' ''watch'' 1 1 False True) 8"

text \<open>A persistent channel, empty and with three members.\<close>

definition general :: Channel where
  "general = init ''#general'' ''talk'' 1 1 True False"

definition general3 :: Channel where
  "general3 = append_ch (append_ch (append_ch general 1) 2) 3"

section \<open>Properties\<close>

subsection \<open>Auxiliary facts\<close>

lemma startswith_iff_append: "startswith s p \<longleftrightarrow> (\<exists>t. s = p @ t)"
  by (induction s p rule: startswith.induct) auto

lemma multi_not_spec: "startswith n ''#multi_'' \<Longrightarrow> \<not> startswith n ''#spec_''"
  by (auto simp: startswith_iff_append)

lemma list_remove_absent: "x \<notin> set xs \<Longrightarrow> list_remove xs x = Inl ValueError"
  by (induction xs) auto

lemma list_remove_present: "x \<in> set xs \<Longrightarrow> list_remove xs x = Inr (remove1 x xs)"
  by (induction xs) auto

lemma enqueue_loop_filter:
  "enqueue_loop h ps data immune =
     map (\<lambda>p. player_enqueue p data) (filter (\<lambda>p. player_id (h p) \<notin> set immune) ps)"
  by (induction ps) auto

lemma send_selective_loop_map:
  "send_selective_loop h c client msg ps =
     map (\<lambda>p. player_enqueue p
       (sendMessage (player_name (h client)) msg (name c) (player_id (h client)))) ps"
  by (induction ps) auto

lemma remove_ch_deletion:
  "length (players c) = 1 \<Longrightarrow> instance_flag c \<Longrightarrow>
     remove_ch c p = Inr (c, [glob_channels_remove c])"
  by (simp add: remove_ch_def)

lemma remove_ch_present:
  "\<not> (length (players c) = 1 \<and> instance_flag c) \<Longrightarrow> p \<in> set (players c) \<Longrightarrow>
     remove_ch c p = Inr (c\<lparr>players := remove1 p (players c)\<rparr>, [])"
  by (simp add: remove_ch_def list_remove_present)

lemma remove_ch_absent:
  "\<not> (length (players c) = 1 \<and> instance_flag c) \<Longrightarrow> p \<notin> set (players c) \<Longrightarrow>
     remove_ch c p = Inl ValueError"
  by (simp add: remove_ch_def list_remove_absent)

lemma lobby_state:
  "instance_flag lobby" "players lobby = [5]" "real_name lobby = ''#multi_7''"
  by (simp_all add: lobby_def append_ch_def init_def)

lemma booth_state:
  "instance_flag booth" "players booth = [8]" "real_name booth = ''#spec_3''"
  by (simp_all add: booth_def append_ch_def init_def)

lemma general3_state:
  "\<not> instance_flag general3" "players general3 = [1, 2, 3]" "real_name general3 = ''#general''"
  by (simp_all add: general3_def general_def append_ch_def init_def)

text \<open>
  A replay in which every leave names a present player and never meets the deletion
  test raises no error and calls no collaborator; each join adds one entry and each
  leave takes one away.
\<close>

lemma replay_size:
  "leaves_present c xs \<Longrightarrow> no_deletion c xs \<Longrightarrow>
     \<exists>c'. replay c xs = Inr (c', []) \<and>
       length (players c') + length (leaves xs) = length (players c) + length (joins xs)"
proof (induction c xs rule: leaves_present.induct)
  case (1 c)
  then show ?case by simp
next
  case (2 c p xs)
  then show ?case by (auto simp: append_ch_def)
next
  case (3 c p xs)
  from "3.prems" have pres: "p \<in> set (players c)"
    and nd: "\<not> (length (players c) = 1 \<and> instance_flag c)"
    by (simp_all add: contains_def)
  let ?c' = "c\<lparr>players := remove1 p (players c)\<rparr>"
  have rm: "remove_ch c p = Inr (?c', [])"
    using nd pres by (rule remove_ch_present)
  from "3.prems" rm have "leaves_present ?c' xs" "no_deletion ?c' xs" by simp_all
  with "3.IH"[OF rm refl] obtain c'' where
    r: "replay ?c' xs = Inr (c'', [])"
    and l: "length (players c'') + length (leaves xs) = length (players ?c') + length (joins xs)"
    by auto
  from pres have "length (players ?c') + 1 = length (players c)"
    by (simp add: length_remove1) (cases "players c"; simp)
  with r l rm show ?case by simp
qed

subsection \<open>The display name\<close>

text \<open>
  Claim C4. The property \<^verbatim>\<open>name\<close> is the spectator alias for a \<^verbatim>\<open>_name\<close> that starts with
  \<^verbatim>\<open>#spec_\<close>, the multiplayer alias for one that starts with \<^verbatim>\<open>#multi_\<close>, and the \<^verbatim>\<open>_name\<close>
  itself otherwise. It is a function of \<^verbatim>\<open>_name\<close> alone: two channels with the same
  \<^verbatim>\<open>_name\<close> have the same \<^verbatim>\<open>name\<close>, whatever their other slots. The three names of the
  specification map as it says.
\<close>

theorem name_aliases:
  "(startswith (real_name c) ''#spec_'' \<longrightarrow> name c = ''#spectator'') \<and>
   (startswith (real_name c) ''#multi_'' \<longrightarrow> name c = ''#multiplayer'') \<and>
   (\<not> startswith (real_name c) ''#spec_'' \<and> \<not> startswith (real_name c) ''#multi_''
      \<longrightarrow> name c = real_name c) \<and>
   (real_name c = real_name c' \<longrightarrow> name c = name c') \<and>
   name (init ''#spec_42'' tp rd wr aj inst) = ''#spectator'' \<and>
   name (init ''#multi_7'' tp rd wr aj inst) = ''#multiplayer'' \<and>
   name (init ''#general'' tp rd wr aj inst) = ''#general''"
proof -
  have "startswith (real_name c) ''#multi_'' \<longrightarrow> name c = ''#multiplayer''"
    using multi_not_spec [of "real_name c"] by (simp add: name_def)
  moreover have "name (init ''#spec_42'' tp rd wr aj inst) = ''#spectator''"
    "name (init ''#multi_7'' tp rd wr aj inst) = ''#multiplayer''"
    "name (init ''#general'' tp rd wr aj inst) = ''#general''"
    by (simp_all add: name_def init_def)
  ultimately show ?thesis by (simp add: name_def)
qed

theorem name_aliases_witness:
  "startswith (real_name (init ''#spec_1'' ''a'' 1 1 True True)) ''#spec_'' \<and>
   name (init ''#spec_1'' ''a'' 1 1 True True) = ''#spectator'' \<and>
   startswith (real_name lobby) ''#multi_'' \<and>
   name lobby = ''#multiplayer'' \<and>
   \<not> startswith (real_name general3) ''#spec_'' \<and>
   \<not> startswith (real_name general3) ''#multi_'' \<and>
   name general3 = ''#general'' \<and>
   real_name general3 = real_name general \<and>
   name general3 = name general"
  using name_aliases [of "init ''#spec_1'' ''a'' 1 1 True True"]
    name_aliases [of lobby] name_aliases [of general3 general]
  by (simp add: lobby_state general3_state general_def init_def)

subsection \<open>Leaving\<close>

text \<open>
  Claim C1. On an instance channel whose player list has length one, \<^verbatim>\<open>remove\<close> raises
  nothing and makes exactly one call on a collaborator: \<^verbatim>\<open>glob.channels.remove(self)\<close>,
  asking the global channel list to delete this channel.
\<close>

theorem remove_ch_requests_deletion_once:
  "instance_flag c \<Longrightarrow> length (players c) = 1 \<Longrightarrow>
     \<exists>c'. remove_ch c p = Inr (c', [glob_channels_remove c])"
  by (simp add: remove_ch_deletion)

theorem remove_ch_requests_deletion_once_witness:
  "instance_flag lobby \<and> length (players lobby) = 1 \<and>
   (\<exists>c'. remove_ch lobby 5 = Inr (c', [glob_channels_remove lobby]))"
  using remove_ch_requests_deletion_once [of lobby 5] by (simp add: lobby_state)

text \<open>
  Claim C2, at an instance channel with one member and a player that is not that
  member: \<^verbatim>\<open>remove\<close> neither leaves the call without effect nor raises; it asks the
  global channel list to delete the channel, whose one member is still in it.
\<close>

theorem remove_ch_absent_player_deletes_instance:
  "\<not> contains lobby 6 \<and> contains lobby 5 \<and>
   remove_ch lobby 6 = Inr (lobby, [glob_channels_remove lobby])"
  by (simp add: contains_def lobby_state remove_ch_deletion)

text \<open>
  Claim C6. On a channel that is not an instance and whose only member is \<open>p\<close>,
  \<^verbatim>\<open>remove(p)\<close> raises nothing, empties the player list, calls no collaborator (the
  deletion of the channel is not requested), and \<^verbatim>\<open>basic_info\<close> then reports the count 0.
\<close>

theorem remove_ch_last_member_persistent:
  "\<not> instance_flag c \<Longrightarrow> players c = [p] \<Longrightarrow>
     remove_ch c p = Inr (c\<lparr>players := []\<rparr>, []) \<and>
     players (c\<lparr>players := []\<rparr>) = [] \<and>
     basic_info (c\<lparr>players := []\<rparr>) = (name c, topic c, 0)"
  by (simp add: remove_ch_def basic_info_def name_def)

theorem remove_ch_last_member_persistent_witness:
  "\<not> instance_flag (append_ch general 4) \<and> players (append_ch general 4) = [4] \<and>
   remove_ch (append_ch general 4) 4 = Inr (general, []) \<and>
   basic_info general = (''#general'', ''talk'', 0)"
proof -
  have g: "(append_ch general 4)\<lparr>players := []\<rparr> = general"
    by (simp add: append_ch_def general_def init_def)
  have n: "name (append_ch general 4) = ''#general''" "topic (append_ch general 4) = ''talk''"
    by (simp_all add: name_def append_ch_def general_def init_def)
  have h: "\<not> instance_flag (append_ch general 4)" "players (append_ch general 4) = [4]"
    by (simp_all add: append_ch_def general_def init_def)
  from remove_ch_last_member_persistent [OF h] show ?thesis
    by (simp add: g n h)
qed

text \<open>
  Claim C9. When \<^verbatim>\<open>remove\<close> takes the deletion branch (instance channel, player list of
  length one), the player list after the call is the player list before it: a player
  that was in the channel is still in it.
\<close>

theorem remove_ch_deletion_keeps_players:
  "instance_flag c \<Longrightarrow> length (players c) = 1 \<Longrightarrow>
     \<exists>c' evs. remove_ch c p = Inr (c', evs) \<and> players c' = players c \<and>
       contains c' p = contains c p"
  by (simp add: remove_ch_deletion)

theorem remove_ch_deletion_keeps_players_witness:
  "instance_flag lobby \<and> length (players lobby) = 1 \<and>
   (\<exists>c' evs. remove_ch lobby 5 = Inr (c', evs) \<and> players c' = [5] \<and> contains c' 5)"
  using remove_ch_deletion_keeps_players [of lobby 5]
  by (simp add: lobby_state contains_def)

text \<open>
  Claim C10. \<^verbatim>\<open>remove\<close> requests the deletion exactly when the channel is an instance
  and its player list has length one. Under that test the result is the same for every
  argument: for a player that is not in the channel, too, the deletion is requested and
  no error is raised.
\<close>

theorem remove_ch_deletion_ignores_argument:
  "((\<exists>c'. remove_ch c p = Inr (c', [glob_channels_remove c])) \<longleftrightarrow>
      length (players c) = 1 \<and> instance_flag c) \<and>
   (length (players c) = 1 \<and> instance_flag c \<longrightarrow> remove_ch c p = remove_ch c q) \<and>
   (length (players c) = 1 \<and> instance_flag c \<and> \<not> contains c p \<longrightarrow>
      remove_ch c p = Inr (c, [glob_channels_remove c]))"
proof -
  have "remove_ch c p \<noteq> Inr (c', [glob_channels_remove c])"
    if "\<not> (length (players c) = 1 \<and> instance_flag c)" for c'
    using that by (auto simp: remove_ch_def split: sum.splits)
  then show ?thesis
    by (auto simp: remove_ch_deletion)
qed

theorem remove_ch_deletion_ignores_argument_witness:
  "length (players booth) = 1 \<and> instance_flag booth \<and> \<not> contains booth 9 \<and>
   remove_ch booth 9 = remove_ch booth 8 \<and>
   remove_ch booth 9 = Inr (booth, [glob_channels_remove booth])"
proof -
  have h: "length (players booth) = 1 \<and> instance_flag booth" "\<not> contains booth 9"
    by (simp_all add: booth_state contains_def)
  from remove_ch_deletion_ignores_argument [of booth 9 8] h show ?thesis
    by blast
qed

subsection \<open>Joining\<close>

text \<open>
  Claim C3 as stated fails: joining a player that is already in the channel adds a
  second entry for it, and the list grows.
\<close>

theorem append_ch_duplicates_present_player:
  "contains lobby 5 \<and> distinct (players lobby) \<and>
   \<not> distinct (players (append_ch lobby 5)) \<and>
   length (players (append_ch lobby 5)) = length (players lobby) + 1 \<and>
   players (append_ch lobby 5) = [5, 5]"
  by (simp add: contains_def lobby_state append_ch_def)

text \<open>
  Claim C3, amended. \<^verbatim>\<open>append\<close> makes no membership test: it puts the player at the end
  of the list whether or not the player is already in it, so the list always grows by
  one entry. The list is free of duplicates afterwards exactly when it was free of
  duplicates before and the player was not in it.
\<close>

theorem append_ch_appends:
  "players (append_ch c p) = players c @ [p] \<and>
   length (players (append_ch c p)) = length (players c) + 1 \<and>
   (distinct (players (append_ch c p)) \<longleftrightarrow> distinct (players c) \<and> \<not> contains c p)"
  by (auto simp: append_ch_def contains_def)

theorem append_ch_appends_witness:
  "distinct (players lobby) \<and> \<not> contains lobby 6 \<and>
   players (append_ch lobby 6) = [5, 6] \<and> distinct (players (append_ch lobby 6))"
  using append_ch_appends [of lobby 6] by (simp add: contains_def lobby_state)

text \<open>
  Claim C7. Take a sequence of join and leave calls in which no player is joined twice,
  every leave names a player that is in the channel at that moment, and no leave meets
  the deletion test. Replayed on a newly constructed channel it raises no error, and the
  player list then has as many entries as the number of joins minus the number of leaves.
\<close>

theorem replay_size_joins_minus_leaves:
  "distinct (joins xs) \<Longrightarrow>
   leaves_present (init nm tp rd wr aj inst) xs \<Longrightarrow>
   no_deletion (init nm tp rd wr aj inst) xs \<Longrightarrow>
     \<exists>c evs. replay (init nm tp rd wr aj inst) xs = Inr (c, evs) \<and>
       int (length (players c)) = int (length (joins xs)) - int (length (leaves xs))"
proof -
  assume lp: "leaves_present (init nm tp rd wr aj inst) xs"
    and nd: "no_deletion (init nm tp rd wr aj inst) xs"
  from replay_size [OF lp nd] obtain c' where
    r: "replay (init nm tp rd wr aj inst) xs = Inr (c', [])"
    and l: "length (players c') + length (leaves xs) =
              length (players (init nm tp rd wr aj inst)) + length (joins xs)"
    by blast
  from l have "int (length (players c')) = int (length (joins xs)) - int (length (leaves xs))"
    by (simp add: init_def)
  with r show ?thesis by blast
qed

theorem replay_size_joins_minus_leaves_witness:
  "distinct (joins [Join 1, Join 2, Leave 1, Join 3, Leave 3]) \<and>
   leaves_present (init ''#multi_7'' ''lobby chat'' 1 1 False True)
     [Join 1, Join 2, Leave 1, Join 3, Leave 3] \<and>
   no_deletion (init ''#multi_7'' ''lobby chat'' 1 1 False True)
     [Join 1, Join 2, Leave 1, Join 3, Leave 3] \<and>
   (\<exists>c evs. replay (init ''#multi_7'' ''lobby chat'' 1 1 False True)
       [Join 1, Join 2, Leave 1, Join 3, Leave 3] = Inr (c, evs) \<and>
     int (length (players c)) = 3 - 2)"
proof -
  have d: "distinct (joins [Join 1, Join 2, Leave 1, Join 3, Leave 3])"
    by simp
  have lp: "leaves_present (init ''#multi_7'' ''lobby chat'' 1 1 False True)
      [Join 1, Join 2, Leave 1, Join 3, Leave 3]"
    by (simp add: init_def append_ch_def remove_ch_def contains_def)
  have nd: "no_deletion (init ''#multi_7'' ''lobby chat'' 1 1 False True)
      [Join 1, Join 2, Leave 1, Join 3, Leave 3]"
    by (simp add: init_def append_ch_def remove_ch_def)
  from replay_size_joins_minus_leaves [OF d lp nd] d lp nd show ?thesis
    by simp
qed

subsection \<open>Fan-out\<close>

text \<open>
  Claim C5 as stated fails. In a store where players 1 and 2 both carry the id 1001,
  player 1 sends to \<open>general3\<close>, whose members are 1, 2 and 3, with \<^verbatim>\<open>to_self\<close> false.
  \<^verbatim>\<open>enqueue\<close> compares ids, so member 2, who is not the sender, is skipped with the
  sender: the packet goes to member 3 alone, not to members 2 and 3.
\<close>

theorem send_skips_member_sharing_sender_id:
  "contains general3 1 \<and> contains general3 2 \<and> (2 :: player_ref) \<noteq> 1 \<and>
   send sessions_shared general3 1 ''hi'' False =
     (general3, [player_enqueue 3 (sendMessage ''player'' ''hi'' ''#general'' 1001)]) \<and>
   send sessions_shared general3 1 ''hi'' False \<noteq>
     (general3, [player_enqueue 2 (sendMessage ''player'' ''hi'' ''#general'' 1001),
                 player_enqueue 3 (sendMessage ''player'' ''hi'' ''#general'' 1001)]) \<and>
   player_enqueue 2 (sendMessage ''player'' ''hi'' ''#general'' 1001)
     \<notin> set (snd (send sessions_shared general3 1 ''hi'' False))"
  by (simp add: contains_def send_def enqueue_def general3_state name_def sessions_shared_def)

text \<open>
  Claim C5, amended. The sender is a member of the channel. With \<^verbatim>\<open>to_self\<close> true,
  \<^verbatim>\<open>send\<close> enqueues the packet to every entry of the player list, in list order. With
  \<^verbatim>\<open>to_self\<close> false it enqueues the packet, in list order, to every entry whose id is not
  the sender's id; where the members have pairwise different ids, these are the entries
  other than the sender. The channel itself is not changed.
\<close>

theorem send_fan_out:
  "contains c client \<Longrightarrow>
     send h c client msg True =
       (c, map (\<lambda>p. player_enqueue p
                 (sendMessage (player_name (h client)) msg (name c) (player_id (h client))))
             (players c)) \<and>
     send h c client msg False =
       (c, map (\<lambda>p. player_enqueue p
                 (sendMessage (player_name (h client)) msg (name c) (player_id (h client))))
             (filter (\<lambda>p. player_id (h p) \<noteq> player_id (h client)) (players c))) \<and>
     (inj_on (\<lambda>p. player_id (h p)) (set (players c)) \<longrightarrow>
        send h c client msg False =
          (c, map (\<lambda>p. player_enqueue p
                    (sendMessage (player_name (h client)) msg (name c) (player_id (h client))))
                (filter (\<lambda>p. p \<noteq> client) (players c))))"
proof -
  assume mem: "contains c client"
  have same: "filter (\<lambda>p. player_id (h p) \<noteq> player_id (h client)) (players c) =
                filter (\<lambda>p. p \<noteq> client) (players c)"
    if inj: "inj_on (\<lambda>p. player_id (h p)) (set (players c))"
  proof (rule filter_cong [OF refl])
    fix p assume "p \<in> set (players c)"
    with inj mem show "(player_id (h p) \<noteq> player_id (h client)) = (p \<noteq> client)"
      by (auto simp: contains_def inj_on_def)
  qed
  show ?thesis
    by (auto simp: send_def enqueue_def enqueue_loop_filter same)
qed

theorem send_fan_out_witness:
  "contains general3 2 \<and>
   inj_on (\<lambda>p. player_id (sessions p)) (set (players general3)) \<and>
   send sessions general3 2 ''hi'' True =
     (general3, [player_enqueue 1 (sendMessage ''player'' ''hi'' ''#general'' 1002),
                 player_enqueue 2 (sendMessage ''player'' ''hi'' ''#general'' 1002),
                 player_enqueue 3 (sendMessage ''player'' ''hi'' ''#general'' 1002)]) \<and>
   send sessions general3 2 ''hi'' False =
     (general3, [player_enqueue 1 (sendMessage ''player'' ''hi'' ''#general'' 1002),
                 player_enqueue 3 (sendMessage ''player'' ''hi'' ''#general'' 1002)])"
proof -
  have mem: "contains general3 2"
    by (simp add: contains_def general3_state)
  have inj: "inj_on (\<lambda>p. player_id (sessions p)) (set (players general3))"
    by (simp add: general3_state sessions_def)
  have nm: "name general3 = ''#general''"
    by (simp add: name_def general3_state)
  from send_fan_out [OF mem, of sessions "''hi''"] inj mem show ?thesis
    by (simp add: general3_state nm sessions_def)
qed

text \<open>
  Claim C8. \<^verbatim>\<open>send_selective\<close> enqueues the packet once for each entry of \<^verbatim>\<open>targets\<close>, in
  the order of \<^verbatim>\<open>targets\<close>, and makes no other call. The channel is returned as it was,
  and the calls made are the same whatever the player list holds: members and
  non-members among the targets are treated alike.
\<close>

theorem send_selective_exactly_targets:
  "send_selective h c client msg targets =
     (c, map (\<lambda>p. player_enqueue p
               (sendMessage (player_name (h client)) msg (name c) (player_id (h client))))
           targets) \<and>
   length (snd (send_selective h c client msg targets)) = length targets \<and>
   snd (send_selective h (c\<lparr>players := ps\<rparr>) client msg targets) =
     snd (send_selective h c client msg targets)"
  by (simp add: send_selective_def send_selective_loop_map name_def)

theorem send_selective_exactly_targets_witness:
  "\<not> contains general3 7 \<and> contains general3 1 \<and>
   send_selective sessions general3 2 ''hi'' [7, 1] =
     (general3, [player_enqueue 7 (sendMessage ''player'' ''hi'' ''#general'' 1002),
                 player_enqueue 1 (sendMessage ''player'' ''hi'' ''#general'' 1002)])"
proof -
  have nm: "name general3 = ''#general''"
    by (simp add: name_def general3_state)
  from send_selective_exactly_targets [of sessions general3 2 "''hi''" "[7, 1]"]
  show ?thesis
    by (simp add: contains_def general3_state nm sessions_def)
qed

end
